theory Spec2Isabelle
  imports Main
begin

section \<open>Data model of \<open>contract_proxy.py\<close>\<close>

text \<open>
  Python values that travel through the proxy: integers, strings, lists and \<open>None\<close>.
  Equality of the datatype is Python's \<open>==\<close> on these values (an integer never equals a
  string). A \<open>dict\<close> with string keys is an association list in insertion order.
\<close>

datatype pyval = IntV int | StrV string | ListV "pyval list" | NoneV

type_synonym pydict = "(string \<times> pyval) list"

text \<open>The exceptions that the module and its collaborators raise.\<close>

datatype error =
    IndexError
  | KeyError
  | ValueError
  | BadFunctionCallOutput
  | InvalidTransaction
  | TransportError string
  | LibraryError string

text \<open>A block bound is a block number or a symbolic marker such as \<open>'latest'\<close>.\<close>

datatype block_id = BlockNumber int | BlockTag string

text \<open>One entry of the contract ABI; the proxy reads \<open>i['type']\<close> and \<open>i['name']\<close>.\<close>

record abi_entry =
  abi_type :: string
  abi_name :: string
  abi_inputs :: "(string \<times> string \<times> bool) list"

text \<open>
  A decoded log entry: the raw log's own fields (\<open>dict(log)\<close>) together with the value
  stored under the key \<open>'args'\<close>.
\<close>

record log_entry =
  log_fields :: pydict
  args :: pydict

text \<open>
  Everything the proxy does to the outside world, in the order it happens: the
  \<open>eth_getLogs\<close> request with its filter parameters, the cooperative sleep, the
  transaction-count lookup and the direct contract read.
\<close>

datatype action =
    Eth_getLogs pydict
  | Sleep int
  | GetTransactionCount string
  | GetChannelInfo pyval pyval pyval

type_synonym trace = "action list"

text \<open>
  The chain connection \<open>self.web3\<close> (with the contract object made from it). What the node
  answers may depend on everything that happened before, so each operation reads the
  trace so far.
\<close>

record web3_conn =
  getTransactionCount :: "trace \<Rightarrow> string \<Rightarrow> error + int"
  request_blocking :: "trace \<Rightarrow> pydict \<Rightarrow> error + pydict list"
  getChannelInfo :: "trace \<Rightarrow> pyval \<Rightarrow> pyval \<Rightarrow> pyval \<Rightarrow> error + pyval list"
  prepare_transaction :: "string \<Rightarrow> pyval list \<Rightarrow> error + string"
  toHex :: "string \<Rightarrow> string"

text \<open>
  The fields of an \<open>ethereum.transactions.Transaction\<close>: the positional fields
  \<open>(nonce, gasprice, startgas, to, value, data)\<close> and the signature \<open>(v, r, s)\<close>.
\<close>

record transaction =
  tx_nonce :: int
  tx_gasprice :: int
  tx_startgas :: int
  tx_to :: string
  tx_value :: int
  tx_data :: string
  tx_v :: int
  tx_r :: int
  tx_s :: int

text \<open>
  The imported library functions (web3, pyethereum, rlp, eth_utils). They are not part of
  the module; each is a parameter. \<open>construct_event_filter_params\<close> stands for component
  \<open>[1]\<close> of the library's result and \<open>get_event_data\<close> for the \<open>'args'\<close> of its result.
  \<open>transaction_error\<close> is what the \<open>Transaction\<close> constructor rejects besides values
  that are too high (a recipient that is no address; in some versions of the library a
  gas limit below the intrinsic gas). \<open>ecsign\<close> is the signature that \<open>Transaction.sign\<close>
  stores in \<open>v\<close>, \<open>r\<close>, \<open>s\<close>; it raises for a key that cannot sign and for fields that
  cannot be serialised, as \<open>rlp.encode\<close> does.
\<close>

record lib =
  construct_event_filter_params ::
    "abi_entry \<Rightarrow> pydict \<Rightarrow> block_id \<Rightarrow> block_id \<Rightarrow> string \<Rightarrow> error + pydict"
  input_filter_params_formatter :: "pydict \<Rightarrow> pydict"
  log_array_formatter :: "pydict list \<Rightarrow> pydict list"
  get_event_data :: "abi_entry \<Rightarrow> pydict \<Rightarrow> error + pydict"
  decode_hex :: "string \<Rightarrow> error + string"
  transaction_error :: "transaction \<Rightarrow> error option"
  ecsign :: "transaction \<Rightarrow> string \<Rightarrow> error + int \<times> int \<times> int"
  rlp_encode :: "transaction \<Rightarrow> error + string"
  privtoaddr :: "string \<Rightarrow> string"
  encode_hex :: "string \<Rightarrow> string"

text \<open>The fields of a \<open>ContractProxy\<close> instance.\<close>

record proxy =
  web3 :: web3_conn
  privkey :: string
  caller_address :: string
  address :: string
  abi :: "abi_entry list"
  gas_price :: int
  gas_limit :: int

definition DEFAULT_TIMEOUT :: int where
  "DEFAULT_TIMEOUT = 20"

definition DEFAULT_RETRY_INTERVAL :: int where
  "DEFAULT_RETRY_INTERVAL = 3"

text \<open>A keyword parameter that the caller did not supply takes its default.\<close>

definition supplied :: "'a \<Rightarrow> 'a option \<Rightarrow> 'a" where
  "supplied d x = (case x of None \<Rightarrow> d | Some v \<Rightarrow> v)"

section \<open>ContractProxy\<close>

definition ContractProxy_init ::
  "lib \<Rightarrow> web3_conn \<Rightarrow> string \<Rightarrow> string \<Rightarrow> abi_entry list \<Rightarrow> int \<Rightarrow> int \<Rightarrow> proxy" where
  "ContractProxy_init L w3 key contract_address abi0 gp gl =
     \<lparr> web3 = w3, privkey = key,
       caller_address = ''0x'' @ encode_hex L (privtoaddr L key),
       address = contract_address, abi = abi0, gas_price = gp, gas_limit = gl \<rparr>"

subsection \<open>create_transaction\<close>

text \<open>
  \<open>Transaction(nonce, gasprice, startgas, to, value, data)\<close>: the constructor stores the
  fields with an empty signature, and raises \<open>InvalidTransaction\<close> when the gas price, the
  gas limit, the value or the nonce is \<open>2 ^ 256\<close> or more.
\<close>

definition TT256 :: int where
  "TT256 = 2 ^ 256"

definition Transaction ::
  "lib \<Rightarrow> int \<Rightarrow> int \<Rightarrow> int \<Rightarrow> string \<Rightarrow> int \<Rightarrow> string \<Rightarrow> error + transaction" where
  "Transaction L nonce gasprice startgas to value data =
     (let tx = \<lparr> tx_nonce = nonce, tx_gasprice = gasprice, tx_startgas = startgas,
                 tx_to = to, tx_value = value, tx_data = data,
                 tx_v = 0, tx_r = 0, tx_s = 0 \<rparr>
      in case transaction_error L tx of
           Some e \<Rightarrow> Inl e
         | None \<Rightarrow>
             if TT256 \<le> gasprice \<or> TT256 \<le> startgas \<or> TT256 \<le> value \<or> TT256 \<le> nonce
             then Inl InvalidTransaction
             else Inr tx)"

text \<open>\<open>tx.sign(key)\<close> stores the signature in the transaction and returns it.\<close>

definition sign :: "lib \<Rightarrow> transaction \<Rightarrow> string \<Rightarrow> error + transaction" where
  "sign L tx key =
     (case ecsign L tx key of
        Inl e \<Rightarrow> Inl e
      | Inr (v, r, s) \<Rightarrow> Inr (tx\<lparr> tx_v := v, tx_r := r, tx_s := s \<rparr>))"

text \<open>
  Lines 34 and 35: \<open>tx = Transaction(nonce, self.gas_price, self.gas_limit, self.address, 0,
  data)\<close> followed by \<open>tx.sign(self.privkey)\<close>.
\<close>

definition signed_transaction :: "lib \<Rightarrow> proxy \<Rightarrow> int \<Rightarrow> string \<Rightarrow> error + transaction" where
  "signed_transaction L p nonce data =
     (case Transaction L nonce (gas_price p) (gas_limit p) (address p) 0 data of
        Inl e \<Rightarrow> Inl e
      | Inr tx \<Rightarrow> sign L tx (privkey p))"

definition create_transaction ::
  "lib \<Rightarrow> proxy \<Rightarrow> string \<Rightarrow> pyval list \<Rightarrow> int option \<Rightarrow> trace \<Rightarrow> (error + string) \<times> trace" where
  "create_transaction L p func_name fargs nonce_offset h =
     (let h' = h @ [GetTransactionCount (caller_address p)] in
      case getTransactionCount (web3 p) h (caller_address p) of
        Inl e \<Rightarrow> (Inl e, h')
      | Inr count \<Rightarrow>
          (let nonce = count + supplied 0 nonce_offset in
           case prepare_transaction (web3 p) func_name fargs of
             Inl e \<Rightarrow> (Inl e, h')
           | Inr hex \<Rightarrow>
               (case decode_hex L hex of
                  Inl e \<Rightarrow> (Inl e, h')
                | Inr data \<Rightarrow>
                    (case signed_transaction L p nonce data of
                       Inl e \<Rightarrow> (Inl e, h')
                     | Inr signed \<Rightarrow>
                         (case rlp_encode L signed of
                            Inl e \<Rightarrow> (Inl e, h')
                          | Inr encoded \<Rightarrow> (Inr (toHex (web3 p) encoded), h'))))))"

subsection \<open>get_logs\<close>

text \<open>The test of the list comprehension on line 43.\<close>

definition event_matches :: "string \<Rightarrow> abi_entry \<Rightarrow> bool" where
  "event_matches event_name i \<longleftrightarrow> abi_type i = ''event'' \<and> abi_name i = event_name"

text \<open>
  Line 43: element \<open>[0]\<close> of the list of matching entries; an empty list raises
  \<open>IndexError\<close>. The \<open>assert\<close> of line 44 holds for every ABI entry, which is never an
  empty dictionary.
\<close>

definition resolve_event :: "abi_entry list \<Rightarrow> string \<Rightarrow> error + abi_entry" where
  "resolve_event abi0 event_name =
     (case filter (event_matches event_name) abi0 of
        [] \<Rightarrow> Inl IndexError
      | event_abi # _ \<Rightarrow> Inr event_abi)"

text \<open>Lines 38 to 48: the filter parameters sent with the request.\<close>

definition filter_params ::
  "lib \<Rightarrow> proxy \<Rightarrow> abi_entry \<Rightarrow> block_id \<Rightarrow> block_id \<Rightarrow> pydict option \<Rightarrow> error + pydict" where
  "filter_params L p event_abi from_block to_block filters =
     (let filters' = (case filters of None \<Rightarrow> [] | Some f \<Rightarrow> if f \<noteq> [] then f else []) in
      case construct_event_filter_params L event_abi filters' from_block to_block (address p) of
        Inl e \<Rightarrow> Inl e
      | Inr flt \<Rightarrow> Inr (input_filter_params_formatter L flt))"

text \<open>Lines 51 to 53: every log, in order, gets its decoded \<open>'args'\<close>.\<close>

fun attach_args :: "lib \<Rightarrow> abi_entry \<Rightarrow> pydict list \<Rightarrow> error + log_entry list" where
  "attach_args L event_abi [] = Inr []"
| "attach_args L event_abi (log # logs) =
     (case get_event_data L event_abi log of
        Inl e \<Rightarrow> Inl e
      | Inr a \<Rightarrow>
          (case attach_args L event_abi logs of
             Inl e \<Rightarrow> Inl e
           | Inr rest \<Rightarrow> Inr (\<lparr> log_fields = log, args = a \<rparr> # rest)))"

definition get_logs ::
  "lib \<Rightarrow> proxy \<Rightarrow> string \<Rightarrow> block_id option \<Rightarrow> block_id option \<Rightarrow> pydict option \<Rightarrow> trace
     \<Rightarrow> (error + log_entry list) \<times> trace" where
  "get_logs L p event_name from_block to_block filters h =
     (case resolve_event (abi p) event_name of
        Inl e \<Rightarrow> (Inl e, h)
      | Inr event_abi \<Rightarrow>
          (case filter_params L p event_abi (supplied (BlockNumber 0) from_block)
                  (supplied (BlockTag ''latest'') to_block) filters of
             Inl e \<Rightarrow> (Inl e, h)
           | Inr fp \<Rightarrow>
               (case request_blocking (web3 p) h fp of
                  Inl e \<Rightarrow> (Inl e, h @ [Eth_getLogs fp])
                | Inr response \<Rightarrow>
                    (attach_args L event_abi (log_array_formatter L response),
                     h @ [Eth_getLogs fp]))))"

subsection \<open>get_event_blocking\<close>

text \<open>
  Python's \<open>range(start, stop, step)\<close>: a zero step raises \<open>ValueError\<close>, a positive step
  counts up while the value is below \<open>stop\<close>, a negative step counts down while it is
  above.
\<close>

function range_up :: "int \<Rightarrow> int \<Rightarrow> int \<Rightarrow> int list" where
  "range_up i stop step =
     (if 0 < step \<and> i < stop then i # range_up (i + step) stop step else [])"
  by pat_completeness auto
termination
  by (relation "measure (\<lambda>(i, stop, step). nat (stop - i))") auto

declare range_up.simps [simp del]

function range_down :: "int \<Rightarrow> int \<Rightarrow> int \<Rightarrow> int list" where
  "range_down i stop step =
     (if step < 0 \<and> stop < i then i # range_down (i + step) stop step else [])"
  by pat_completeness auto
termination
  by (relation "measure (\<lambda>(i, stop, step). nat (i - stop))") auto

declare range_down.simps [simp del]

definition py_range :: "int \<Rightarrow> int \<Rightarrow> int \<Rightarrow> error + int list" where
  "py_range start stop step =
     (if step = 0 then Inl ValueError
      else if 0 < step then Inr (range_up start stop step)
      else Inr (range_down start stop step))"

text \<open>
  Line 62: \<open>[event for event in logs if not condition or condition(event)]\<close>. The
  condition is called on every entry in order, and an exception it raises ends the
  comprehension.
\<close>

fun matching_logs ::
  "(log_entry \<Rightarrow> error + bool) option \<Rightarrow> log_entry list \<Rightarrow> error + log_entry list" where
  "matching_logs condition [] = Inr []"
| "matching_logs condition (event # logs) =
     (case (case condition of None \<Rightarrow> Inr True | Some c \<Rightarrow> c event) of
        Inl e \<Rightarrow> Inl e
      | Inr keep \<Rightarrow>
          (case matching_logs condition logs of
             Inl e \<Rightarrow> Inl e
           | Inr rest \<Rightarrow> Inr (if keep then event # rest else rest)))"

text \<open>The body of the \<open>for\<close> loop (lines 60 to 68), over the values of \<open>i\<close> still to come.\<close>

fun poll_loop ::
  "lib \<Rightarrow> proxy \<Rightarrow> string \<Rightarrow> block_id \<Rightarrow> block_id \<Rightarrow> pydict option
     \<Rightarrow> (log_entry \<Rightarrow> error + bool) option \<Rightarrow> int \<Rightarrow> int \<Rightarrow> int list \<Rightarrow> trace
     \<Rightarrow> (error + log_entry option) \<times> trace" where
  "poll_loop L p event_name from_block to_block filters condition wait timeout [] h =
     (Inr None, h)"
| "poll_loop L p event_name from_block to_block filters condition wait timeout (i # rest) h =
     (case get_logs L p event_name (Some from_block) (Some to_block) filters h of
        (Inl e, h') \<Rightarrow> (Inl e, h')
      | (Inr logs, h') \<Rightarrow>
          (case matching_logs condition logs of
             Inl e \<Rightarrow> (Inl e, h')
           | Inr matching \<Rightarrow>
               (case matching of
                  m # _ \<Rightarrow> (Inr (Some m), h')
                | [] \<Rightarrow>
                    if i < timeout
                    then poll_loop L p event_name from_block to_block filters condition
                           wait timeout rest (h' @ [Sleep wait])
                    else poll_loop L p event_name from_block to_block filters condition
                           wait timeout rest h')))"

definition get_event_blocking ::
  "lib \<Rightarrow> proxy \<Rightarrow> string \<Rightarrow> block_id option \<Rightarrow> block_id option \<Rightarrow> pydict option
     \<Rightarrow> (log_entry \<Rightarrow> error + bool) option \<Rightarrow> int option \<Rightarrow> int option \<Rightarrow> trace
     \<Rightarrow> (error + log_entry option) \<times> trace" where
  "get_event_blocking L p event_name from_block to_block filters condition wait timeout h =
     (let wait' = supplied DEFAULT_RETRY_INTERVAL wait;
          timeout' = supplied DEFAULT_TIMEOUT timeout
      in case py_range 0 (timeout' + wait') wait' of
           Inl e \<Rightarrow> (Inl e, h)
         | Inr is \<Rightarrow>
             poll_loop L p event_name (supplied (BlockNumber 0) from_block)
               (supplied (BlockTag ''pending'') to_block) filters condition wait' timeout' is h)"

section \<open>ChannelContractProxy\<close>

definition get_channel_created_logs ::
  "lib \<Rightarrow> proxy \<Rightarrow> block_id option \<Rightarrow> block_id option \<Rightarrow> pydict option \<Rightarrow> trace
     \<Rightarrow> (error + log_entry list) \<times> trace" where
  "get_channel_created_logs L p from_block to_block filters h =
     get_logs L p ''ChannelCreated'' (Some (supplied (BlockNumber 0) from_block))
       (Some (supplied (BlockTag ''latest'') to_block)) filters h"

definition get_channel_topped_up_logs ::
  "lib \<Rightarrow> proxy \<Rightarrow> block_id option \<Rightarrow> block_id option \<Rightarrow> pydict option \<Rightarrow> trace
     \<Rightarrow> (error + log_entry list) \<times> trace" where
  "get_channel_topped_up_logs L p from_block to_block filters h =
     get_logs L p ''ChannelToppedUp'' (Some (supplied (BlockNumber 0) from_block))
       (Some (supplied (BlockTag ''latest'') to_block)) filters h"

definition get_channel_close_requested_logs ::
  "lib \<Rightarrow> proxy \<Rightarrow> block_id option \<Rightarrow> block_id option \<Rightarrow> pydict option \<Rightarrow> trace
     \<Rightarrow> (error + log_entry list) \<times> trace" where
  "get_channel_close_requested_logs L p from_block to_block filters h =
     get_logs L p ''ChannelCloseRequested'' (Some (supplied (BlockNumber 0) from_block))
       (Some (supplied (BlockTag ''latest'') to_block)) filters h"

definition get_channel_settled_logs ::
  "lib \<Rightarrow> proxy \<Rightarrow> block_id option \<Rightarrow> block_id option \<Rightarrow> pydict option \<Rightarrow> trace
     \<Rightarrow> (error + log_entry list) \<times> trace" where
  "get_channel_settled_logs L p from_block to_block filters h =
     get_logs L p ''ChannelSettled'' (Some (supplied (BlockNumber 0) from_block))
       (Some (supplied (BlockTag ''latest'') to_block)) filters h"

definition get_channel_topup_logs ::
  "lib \<Rightarrow> proxy \<Rightarrow> block_id option \<Rightarrow> block_id option \<Rightarrow> pydict option \<Rightarrow> trace
     \<Rightarrow> (error + log_entry list) \<times> trace" where
  "get_channel_topup_logs L p from_block to_block filters h =
     get_logs L p ''ChannelToppedUp'' (Some (supplied (BlockNumber 0) from_block))
       (Some (supplied (BlockTag ''latest'') to_block)) filters h"

definition get_channel_created_event_blocking ::
  "lib \<Rightarrow> proxy \<Rightarrow> pyval \<Rightarrow> pyval \<Rightarrow> block_id option \<Rightarrow> block_id option
     \<Rightarrow> int option \<Rightarrow> int option \<Rightarrow> trace \<Rightarrow> (error + log_entry option) \<times> trace" where
  "get_channel_created_event_blocking L p sender receiver from_block to_block wait timeout h =
     (let filters = [(''_sender'', sender), (''_receiver'', receiver)]
      in get_event_blocking L p ''ChannelCreated''
           (Some (supplied (BlockNumber 0) from_block))
           (Some (supplied (BlockTag ''pending'') to_block))
           (Some filters) None
           (Some (supplied DEFAULT_RETRY_INTERVAL wait))
           (Some (supplied DEFAULT_TIMEOUT timeout)) h)"

text \<open>
  Lines 112 to 114. A missing key raises \<open>KeyError\<close>; \<open>and\<close> does not evaluate its second
  operand when the first is false.
\<close>

definition topped_up_condition :: "pyval \<Rightarrow> pyval \<Rightarrow> log_entry \<Rightarrow> error + bool" where
  "topped_up_condition deposit topup event =
     (case map_of (args event) ''_deposit'' of
        None \<Rightarrow> Inl KeyError
      | Some d \<Rightarrow>
          if d = deposit
          then (case map_of (args event) ''_added_deposit'' of
                  None \<Rightarrow> Inl KeyError
                | Some a \<Rightarrow> Inr (a = topup))
          else Inr False)"

definition get_channel_topped_up_event_blocking ::
  "lib \<Rightarrow> proxy \<Rightarrow> pyval \<Rightarrow> pyval \<Rightarrow> pyval \<Rightarrow> pyval \<Rightarrow> pyval
     \<Rightarrow> block_id option \<Rightarrow> block_id option
     \<Rightarrow> int option \<Rightarrow> int option \<Rightarrow> trace \<Rightarrow> (error + log_entry option) \<times> trace" where
  "get_channel_topped_up_event_blocking L p sender receiver opening_block deposit topup
       from_block to_block wait timeout h =
     (let filters = [(''_sender'', sender), (''_receiver'', receiver),
                     (''_open_block_number'', opening_block)]
      in get_event_blocking L p ''ChannelToppedUp''
           (Some (supplied (BlockNumber 0) from_block))
           (Some (supplied (BlockTag ''pending'') to_block))
           (Some filters) (Some (topped_up_condition deposit topup))
           (Some (supplied DEFAULT_RETRY_INTERVAL wait))
           (Some (supplied DEFAULT_TIMEOUT timeout)) h)"

definition get_channel_close_requested_event_blocking ::
  "lib \<Rightarrow> proxy \<Rightarrow> pyval \<Rightarrow> pyval \<Rightarrow> pyval \<Rightarrow> block_id option \<Rightarrow> block_id option
     \<Rightarrow> int option \<Rightarrow> int option \<Rightarrow> trace \<Rightarrow> (error + log_entry option) \<times> trace" where
  "get_channel_close_requested_event_blocking L p sender receiver opening_block
       from_block to_block wait timeout h =
     (let filters = [(''_sender'', sender), (''_receiver'', receiver),
                     (''_open_block_number'', opening_block)]
      in get_event_blocking L p ''ChannelCloseRequested''
           (Some (supplied (BlockNumber 0) from_block))
           (Some (supplied (BlockTag ''pending'') to_block))
           (Some filters) None
           (Some (supplied DEFAULT_RETRY_INTERVAL wait))
           (Some (supplied DEFAULT_TIMEOUT timeout)) h)"

definition get_channel_settle_event_blocking ::
  "lib \<Rightarrow> proxy \<Rightarrow> pyval \<Rightarrow> pyval \<Rightarrow> pyval \<Rightarrow> block_id option \<Rightarrow> block_id option
     \<Rightarrow> int option \<Rightarrow> int option \<Rightarrow> trace \<Rightarrow> (error + log_entry option) \<times> trace" where
  "get_channel_settle_event_blocking L p sender receiver opening_block
       from_block to_block wait timeout h =
     (let filters = [(''_sender'', sender), (''_receiver'', receiver),
                     (''_open_block_number'', opening_block)]
      in get_event_blocking L p ''ChannelSettled''
           (Some (supplied (BlockNumber 0) from_block))
           (Some (supplied (BlockTag ''pending'') to_block))
           (Some filters) None
           (Some (supplied DEFAULT_RETRY_INTERVAL wait))
           (Some (supplied DEFAULT_TIMEOUT timeout)) h)"

text \<open>
  Lines 148 to 154. \<open>channel_info[3]\<close> raises \<open>IndexError\<close> on a sequence shorter than
  four.
\<close>

definition get_settle_timeout ::
  "proxy \<Rightarrow> pyval \<Rightarrow> pyval \<Rightarrow> pyval \<Rightarrow> trace \<Rightarrow> (error + pyval option) \<times> trace" where
  "get_settle_timeout p sender receiver open_block_number h =
     (let h' = h @ [GetChannelInfo sender receiver open_block_number] in
      case getChannelInfo (web3 p) h sender receiver open_block_number of
        Inl e \<Rightarrow> if e = BadFunctionCallOutput then (Inr None, h') else (Inl e, h')
      | Inr channel_info \<Rightarrow>
          if 3 < length channel_info then (Inr (Some (channel_info ! 3)), h')
          else (Inl IndexError, h'))"

section \<open>Observations on a trace\<close>

fun is_poll :: "action \<Rightarrow> bool" where
  "is_poll (Eth_getLogs _) = True"
| "is_poll _ = False"

fun is_sleep :: "action \<Rightarrow> bool" where
  "is_sleep (Sleep _) = True"
| "is_sleep _ = False"

text \<open>The number of log requests, and of sleeps, that a trace holds.\<close>

definition polls :: "trace \<Rightarrow> nat" where
  "polls h = length (filter is_poll h)"

definition sleeps :: "trace \<Rightarrow> nat" where
  "sleeps h = length (filter is_sleep h)"

text \<open>Whether an entry passes the filter of line 62.\<close>

definition accepts :: "(log_entry \<Rightarrow> error + bool) option \<Rightarrow> log_entry \<Rightarrow> bool" where
  "accepts condition event \<longleftrightarrow> (case condition of None \<Rightarrow> True | Some c \<Rightarrow> c event = Inr True)"

text \<open>
  The actions that a wait for \<open>event_name\<close> over a block range may add to the trace: a
  sleep of the wait interval, or the log request that carries the filter parameters
  built from the wait's own event, block range and filters.
\<close>

definition wait_action ::
  "lib \<Rightarrow> proxy \<Rightarrow> string \<Rightarrow> block_id \<Rightarrow> block_id \<Rightarrow> pydict option \<Rightarrow> int \<Rightarrow> action \<Rightarrow> bool" where
  "wait_action L p event_name from_block to_block filters wait a \<longleftrightarrow>
     a = Sleep wait \<or>
     (case resolve_event (abi p) event_name of
        Inl e \<Rightarrow> False
      | Inr event_abi \<Rightarrow>
          (case filter_params L p event_abi from_block to_block filters of
             Inl e \<Rightarrow> False
           | Inr fp \<Rightarrow> a = Eth_getLogs fp))"

section \<open>An example deployment\<close>

text \<open>
  A concrete library, ABI, node and proxy on which the theorems below are exercised. The
  example library builds the filter as the dictionary of block bounds, contract address and
  argument filters, decodes a raw log to its own fields, and serialises a transaction to
  its data followed by a byte for \<open>v\<close>. The example node answers every
  log request with the same raw logs and every channel read with the same result.
\<close>

fun block_value :: "block_id \<Rightarrow> pyval" where
  "block_value (BlockNumber n) = IntV n"
| "block_value (BlockTag t) = StrV t"

definition example_lib :: lib where
  "example_lib =
     \<lparr> construct_event_filter_params =
         (\<lambda>event_abi filters from_block to_block addr.
            Inr ([(''fromBlock'', block_value from_block), (''toBlock'', block_value to_block),
                  (''address'', StrV addr), (''event'', StrV (abi_name event_abi)),
                  (''inputs'', IntV (int (length (abi_inputs event_abi))))] @ filters)),
       input_filter_params_formatter = (\<lambda>f. f),
       log_array_formatter = (\<lambda>logs. logs),
       get_event_data = (\<lambda>event_abi log. Inr log),
       decode_hex = (\<lambda>hex. Inr (drop 2 hex)),
       transaction_error = (\<lambda>tx. None),
       ecsign = (\<lambda>tx key. if key = [] then Inl InvalidTransaction
                           else Inr (27, tx_nonce tx, int (length key))),
       rlp_encode = (\<lambda>tx. Inr (tx_data tx @ (if tx_v tx = 27 then ''1b'' else ''00''))),
       privtoaddr = (\<lambda>key. key),
       encode_hex = (\<lambda>b. b) \<rparr>"

definition example_abi :: "abi_entry list" where
  "example_abi =
     [ \<lparr> abi_type = ''function'', abi_name = ''ChannelCreated'', abi_inputs = [] \<rparr>,
       \<lparr> abi_type = ''event'', abi_name = ''ChannelCreated'',
         abi_inputs = [(''_sender'', ''address'', True), (''_receiver'', ''address'', True)] \<rparr>,
       \<lparr> abi_type = ''event'', abi_name = ''ChannelToppedUp'',
         abi_inputs = [(''_sender'', ''address'', True), (''_receiver'', ''address'', True),
                       (''_open_block_number'', ''uint32'', True),
                       (''_added_deposit'', ''uint192'', False),
                       (''_deposit'', ''uint192'', False)] \<rparr>,
       \<lparr> abi_type = ''event'', abi_name = ''Twice'', abi_inputs = [] \<rparr>,
       \<lparr> abi_type = ''event'', abi_name = ''Twice'',
         abi_inputs = [(''_x'', ''uint32'', False)] \<rparr> ]"

definition example_web3 :: "pydict list \<Rightarrow> error + pyval list \<Rightarrow> web3_conn" where
  "example_web3 logs info =
     \<lparr> getTransactionCount = (\<lambda>h addr. Inr 7),
       request_blocking = (\<lambda>h fp. Inr logs),
       getChannelInfo = (\<lambda>h sender receiver open_block_number. info),
       prepare_transaction = (\<lambda>func_name fargs. Inr ''0xabcd''),
       toHex = (\<lambda>b. ''0x'' @ b) \<rparr>"

definition example_proxy :: "pydict list \<Rightarrow> error + pyval list \<Rightarrow> proxy" where
  "example_proxy logs info =
     ContractProxy_init example_lib (example_web3 logs info) ''k'' ''0xC0'' example_abi
       20 130000"

text \<open>A topped-up log with deposit 100 and added deposit 50.\<close>

definition example_topup_log :: pydict where
  "example_topup_log =
     [(''blockNumber'', IntV 10), (''_deposit'', IntV 100), (''_added_deposit'', IntV 50)]"

section \<open>Auxiliary facts\<close>

lemma range_up_step:
  "0 < step \<Longrightarrow> i < stop \<Longrightarrow> range_up i stop step = i # range_up (i + step) stop step"
  by (subst range_up.simps) simp

lemma range_up_done:
  "\<not> (0 < step \<and> i < stop) \<Longrightarrow> range_up i stop step = []"
  by (subst range_up.simps) simp

lemma div_step_shift:
  fixes step :: int
  assumes "0 < step"
  shows "(a + step) div step = a div step + 1"
  using assms div_add_self2[of step a] by linarith

lemma length_range_up:
  "0 < step \<Longrightarrow> length (range_up i stop step) =
     (if i < stop then nat ((stop - i - 1) div step + 1) else 0)"
proof (induction i stop step rule: range_up.induct)
  case (1 i stop step)
  show ?case
  proof (cases "i < stop")
    case False
    then show ?thesis by (simp add: range_up_done)
  next
    case True
    note lt = True
    show ?thesis
    proof (cases "i + step < stop")
      case True
      have e: "(stop - (i + step) - 1) + step = stop - i - 1" by simp
      have d: "(stop - i - 1) div step = (stop - (i + step) - 1) div step + 1"
        using div_step_shift[OF 1(2), of "stop - (i + step) - 1"] by (simp only: e)
      have nn: "0 \<le> (stop - (i + step) - 1) div step"
        using True 1(2) by (simp add: pos_imp_zdiv_nonneg_iff)
      have ih: "length (range_up (i + step) stop step) = nat ((stop - (i + step) - 1) div step + 1)"
        using 1(1) 1(2) lt True by simp
      show ?thesis
        using lt 1(2) ih d nn by (simp add: range_up_step nat_add_distrib)
    next
      case False
      then have z: "(stop - i - 1) div step = 0"
        using lt 1(2) by (simp add: div_pos_pos_trivial)
      have "range_up (i + step) stop step = []"
        using False by (simp add: range_up_done)
      then show ?thesis using lt 1(2) z by (simp add: range_up_step)
    qed
  qed
qed

lemma polls_append [simp]: "polls (h @ k) = polls h + polls k"
  by (simp add: polls_def)

lemma sleeps_append [simp]: "sleeps (h @ k) = sleeps h + sleeps k"
  by (simp add: sleeps_def)

lemma polls_single [simp]:
  "polls [Eth_getLogs fp] = 1" "polls [Sleep w] = 0"
  by (simp_all add: polls_def)

lemma sleeps_single [simp]:
  "sleeps [Eth_getLogs fp] = 0" "sleeps [Sleep w] = 1"
  by (simp_all add: sleeps_def)

text \<open>What a call of \<open>get_logs\<close> leaves in the trace.\<close>

lemma get_logs_trace:
  "snd (get_logs L p ev fb tb fl h) = h \<or>
   (\<exists>event_abi fp. resolve_event (abi p) ev = Inr event_abi \<and>
      filter_params L p event_abi (supplied (BlockNumber 0) fb)
        (supplied (BlockTag ''latest'') tb) fl = Inr fp \<and>
      snd (get_logs L p ev fb tb fl h) = h @ [Eth_getLogs fp])"
  by (simp add: get_logs_def split: sum.splits)

lemma get_logs_ok_trace:
  assumes "get_logs L p ev fb tb fl h = (Inr logs, h')"
  shows "\<exists>event_abi fp. resolve_event (abi p) ev = Inr event_abi \<and>
      filter_params L p event_abi (supplied (BlockNumber 0) fb)
        (supplied (BlockTag ''latest'') tb) fl = Inr fp \<and>
      h' = h @ [Eth_getLogs fp]"
  using assms by (auto simp add: get_logs_def split: sum.splits)

lemma get_logs_sleeps: "sleeps (snd (get_logs L p ev fb tb fl h)) = sleeps h"
  using get_logs_trace[of L p ev fb tb fl h] by auto


lemma get_logs_ok_polls:
  "get_logs L p ev fb tb fl h = (Inr logs, h') \<Longrightarrow> polls h' = polls h + 1"
  by (drule get_logs_ok_trace) auto

text \<open>The comprehension of line 62 is a filter, when the condition raises nothing.\<close>

lemma matching_logs_filter:
  "matching_logs c logs = Inr ms \<Longrightarrow> ms = filter (accepts c) logs"
proof (induction logs arbitrary: ms)
  case Nil
  then show ?case by simp
next
  case (Cons event logs)
  then show ?case
    by (cases c) (auto simp add: accepts_def split: sum.splits if_splits)
qed

lemma matching_logs_None [simp]: "matching_logs None logs = Inr logs"
  by (induction logs) simp_all

lemma matching_logs_total:
  "\<forall>event \<in> set logs. \<exists>b. c event = Inr b \<Longrightarrow>
     matching_logs (Some c) logs = Inr (filter (accepts (Some c)) logs)"
  by (induction logs) (auto simp add: accepts_def)


text \<open>A loop whose polls never match runs through every value of \<open>i\<close>.\<close>

lemma poll_loop_no_match:
  assumes "\<forall>h. \<exists>logs. fst (get_logs L p ev (Some fb) (Some tb) fl h) = Inr logs \<and>
             matching_logs c logs = Inr []"
  shows "fst (poll_loop L p ev fb tb fl c w t is h) = Inr None \<and>
         polls (snd (poll_loop L p ev fb tb fl c w t is h)) = polls h + length is \<and>
         sleeps (snd (poll_loop L p ev fb tb fl c w t is h)) =
           sleeps h + length (filter (\<lambda>i. i < t) is)"
proof (induction "is" arbitrary: h)
  case Nil
  show ?case by simp
next
  case (Cons i rest)
  obtain logs where g: "fst (get_logs L p ev (Some fb) (Some tb) fl h) = Inr logs"
    and m: "matching_logs c logs = Inr []"
    using assms by blast
  obtain h' where gh: "get_logs L p ev (Some fb) (Some tb) fl h = (Inr logs, h')"
    using g by (cases "get_logs L p ev (Some fb) (Some tb) fl h") simp
  have ph: "polls h' = polls h + 1"
    using get_logs_ok_polls[OF gh] .
  have sh: "sleeps h' = sleeps h"
    using get_logs_sleeps[of L p ev "Some fb" "Some tb" fl h] gh by simp
  show ?case
  proof (cases "i < t")
    case True
    then have "poll_loop L p ev fb tb fl c w t (i # rest) h =
               poll_loop L p ev fb tb fl c w t rest (h' @ [Sleep w])"
      using gh m by simp
    then show ?thesis
      using Cons.IH[of "h' @ [Sleep w]"] ph sh True by simp
  next
    case False
    then have "poll_loop L p ev fb tb fl c w t (i # rest) h =
               poll_loop L p ev fb tb fl c w t rest h'"
      using gh m by simp
    then show ?thesis
      using Cons.IH[of h'] ph sh False by simp
  qed
qed

text \<open>The definitions that evaluate the example deployment.\<close>

lemmas example_defs = example_proxy_def example_web3_def example_lib_def example_abi_def
  ContractProxy_init_def get_logs_def resolve_event_def event_matches_def filter_params_def
  supplied_def

section \<open>The number of polls of the blocking waiter\<close>

text \<open>
  Claim C1, as the code has it. For a timeout \<open>T \<ge> 0\<close> and a wait interval \<open>w > 0\<close>, a
  call of \<open>get_event_blocking\<close> whose polls all succeed and never yield a matching entry
  returns \<open>None\<close> after exactly \<open>ceiling (T / w) + 1\<close> log requests: the loop runs over
  \<open>range(0, T + w, w)\<close>. The count is \<open>floor (T / w) + 1\<close> only when \<open>w\<close> divides \<open>T\<close>.
\<close>

theorem get_event_blocking_poll_count:
  assumes "0 \<le> timeout" and "0 < wait"
    and "\<forall>h'. \<exists>logs.
           fst (get_logs L p event_name (Some (supplied (BlockNumber 0) from_block))
                  (Some (supplied (BlockTag ''pending'') to_block)) filters h') = Inr logs \<and>
           matching_logs condition logs = Inr []"
  shows "fst (get_event_blocking L p event_name from_block to_block filters condition
                (Some wait) (Some timeout) h) = Inr None \<and>
         polls (snd (get_event_blocking L p event_name from_block to_block filters condition
                (Some wait) (Some timeout) h))
           = polls h + (nat ((timeout + wait - 1) div wait) + 1)"
proof -
  let ?is = "range_up 0 (timeout + wait) wait"
  have r: "py_range 0 (timeout + wait) wait = Inr ?is"
    using assms(2) by (simp add: py_range_def)
  have nn: "0 \<le> (timeout + wait - 1) div wait"
    using assms(1,2) by (simp add: pos_imp_zdiv_nonneg_iff)
  have len: "length ?is = nat ((timeout + wait - 1) div wait) + 1"
    using assms(1,2) nn by (simp add: length_range_up nat_add_distrib)
  have g: "get_event_blocking L p event_name from_block to_block filters condition
             (Some wait) (Some timeout) h =
           poll_loop L p event_name (supplied (BlockNumber 0) from_block)
             (supplied (BlockTag ''pending'') to_block) filters condition wait timeout ?is h"
    using r by (simp add: get_event_blocking_def supplied_def)
  show ?thesis
    using poll_loop_no_match[OF assms(3), of wait timeout ?is h] len by (simp only: g) 
qed

theorem get_event_blocking_poll_count_witness:
  "fst (get_event_blocking example_lib (example_proxy [] (Inr [])) ''ChannelCreated''
          None None None None (Some 3) (Some 20) []) = Inr None \<and>
   polls (snd (get_event_blocking example_lib (example_proxy [] (Inr [])) ''ChannelCreated''
          None None None None (Some 3) (Some 20) [])) = 8"
proof -
  have a: "(0::int) \<le> 20" and b: "(0::int) < 3" by simp_all
  have c: "\<forall>h'. \<exists>logs.
           fst (get_logs example_lib (example_proxy [] (Inr [])) ''ChannelCreated''
                  (Some (supplied (BlockNumber 0) None))
                  (Some (supplied (BlockTag ''pending'') None)) None h') = Inr logs \<and>
           matching_logs None logs = Inr []"
    by (simp add: example_defs)
  show ?thesis
    using get_event_blocking_poll_count[OF a b c, of "[]"] by (simp add: polls_def)
qed

text \<open>
  With the default timeout 20 and wait interval 3 the loop polls at
  \<open>i = 0, 3, \<dots>, 21\<close>, eight times, and not \<open>floor (20 / 3) + 1 = 7\<close> times.
\<close>

theorem poll_count_floor_counterexample:
  "fst (get_event_blocking example_lib (example_proxy [] (Inr [])) ''ChannelCreated''
          None None None None (Some 3) (Some 20) []) = Inr None \<and>
   polls (snd (get_event_blocking example_lib (example_proxy [] (Inr [])) ''ChannelCreated''
          None None None None (Some 3) (Some 20) [])) \<noteq> nat (20 div 3 + 1)"
  by (simp add: example_defs get_event_blocking_def py_range_def range_up.simps polls_def)

lemma supplied_Some [simp]: "supplied d (Some v) = v"
  by (simp add: supplied_def)

lemma supplied_None [simp]: "supplied d None = d"
  by (simp add: supplied_def)

text \<open>Passing a default explicitly is the same as leaving the parameter out.\<close>

lemma get_logs_supplied:
  "get_logs L p ev (Some (supplied (BlockNumber 0) fb)) (Some (supplied (BlockTag ''latest'') tb))
     fl h = get_logs L p ev fb tb fl h"
  unfolding get_logs_def supplied_Some by (rule refl)

section \<open>Resolving the event name\<close>

text \<open>
  Claim C2, as the code has it. When no ABI entry of type \<open>'event'\<close> has the requested
  name, \<open>get_logs\<close> raises (\<open>IndexError\<close>) and the trace is unchanged: no request was
  issued; so does \<open>get_event_blocking\<close> on its first poll. When one or more entries
  match, \<open>get_logs\<close> proceeds with the first of them: a successful call has sent the
  request built from that entry and decoded the response against it. A request is
  sent only if some entry matches.
\<close>

theorem get_logs_resolves_first_match:
  "(filter (event_matches event_name) (abi p) = [] \<longrightarrow>
      get_logs L p event_name from_block to_block filters h = (Inl IndexError, h)) \<and>
   (filter (event_matches event_name) (abi p) = [] \<and> 0 < wait \<and> 0 \<le> timeout \<longrightarrow>
      get_event_blocking L p event_name from_block to_block filters condition
        (Some wait) (Some timeout) h = (Inl IndexError, h)) \<and>
   (\<forall>event_abi others logs h'.
      filter (event_matches event_name) (abi p) = event_abi # others \<and>
      get_logs L p event_name from_block to_block filters h = (Inr logs, h') \<longrightarrow>
        (\<exists>fp response.
           filter_params L p event_abi (supplied (BlockNumber 0) from_block)
             (supplied (BlockTag ''latest'') to_block) filters = Inr fp \<and>
           request_blocking (web3 p) h fp = Inr response \<and>
           attach_args L event_abi (log_array_formatter L response) = Inr logs \<and>
           h' = h @ [Eth_getLogs fp])) \<and>
   (snd (get_logs L p event_name from_block to_block filters h) \<noteq> h \<longrightarrow>
      filter (event_matches event_name) (abi p) \<noteq> [])"
proof -
  have none: "get_logs L p event_name fb tb filters h = (Inl IndexError, h)"
    if "filter (event_matches event_name) (abi p) = []" for fb tb
    using that by (simp add: get_logs_def resolve_event_def)
  have blocking: "get_event_blocking L p event_name from_block to_block filters condition
        (Some wait) (Some timeout) h = (Inl IndexError, h)"
    if e: "filter (event_matches event_name) (abi p) = []" and w: "0 < wait" and t: "0 \<le> timeout"
  proof -
    have "range_up 0 (timeout + wait) wait = 0 # range_up (0 + wait) (timeout + wait) wait"
      using w t by (intro range_up_step) simp_all
    then show ?thesis
      using w none[OF e] by (simp add: get_event_blocking_def py_range_def)
  qed
  have some: "\<exists>fp response.
           filter_params L p event_abi (supplied (BlockNumber 0) from_block)
             (supplied (BlockTag ''latest'') to_block) filters = Inr fp \<and>
           request_blocking (web3 p) h fp = Inr response \<and>
           attach_args L event_abi (log_array_formatter L response) = Inr logs \<and>
           h' = h @ [Eth_getLogs fp]"
    if "filter (event_matches event_name) (abi p) = event_abi # others"
      and "get_logs L p event_name from_block to_block filters h = (Inr logs, h')"
    for event_abi others logs h'
    using that by (auto simp add: get_logs_def resolve_event_def split: sum.splits)
  have only: "filter (event_matches event_name) (abi p) \<noteq> []"
    if "snd (get_logs L p event_name from_block to_block filters h) \<noteq> h"
    using that none[of from_block to_block] by auto
  show ?thesis
    using none[of from_block to_block] blocking some only by blast
qed

theorem get_logs_resolves_first_match_witness:
  "get_logs example_lib (example_proxy [example_topup_log] (Inr [])) ''Missing''
     None None None [] = (Inl IndexError, []) \<and>
   get_event_blocking example_lib (example_proxy [example_topup_log] (Inr [])) ''Missing''
     None None None None (Some 3) (Some 20) [] = (Inl IndexError, []) \<and>
   (\<exists>fp. filter_params example_lib (example_proxy [example_topup_log] (Inr []))
            (example_abi ! 1) (BlockNumber 0) (BlockTag ''latest'') None = Inr fp \<and>
         [Eth_getLogs [(''fromBlock'', IntV 0), (''toBlock'', StrV ''latest''),
            (''address'', StrV ''0xC0''), (''event'', StrV ''ChannelCreated''),
            (''inputs'', IntV 2)]] = [Eth_getLogs fp])"
proof -
  let ?p = "example_proxy [example_topup_log] (Inr [])"
  have a: "filter (event_matches ''Missing'') (abi ?p) = []"
    by (simp add: example_defs)
  have b: "filter (event_matches ''ChannelCreated'') (abi ?p) = example_abi ! 1 # []"
    by (simp add: example_defs)
  have c: "get_logs example_lib ?p ''ChannelCreated'' None None None []
     = (Inr [\<lparr>log_fields = example_topup_log, args = example_topup_log\<rparr>],
        [Eth_getLogs [(''fromBlock'', IntV 0), (''toBlock'', StrV ''latest''),
           (''address'', StrV ''0xC0''), (''event'', StrV ''ChannelCreated''),
           (''inputs'', IntV 2)]])"
    by (simp add: example_defs)
  have w: "(0::int) < 3" and t: "(0::int) \<le> 20" by simp_all
  show ?thesis
    using get_logs_resolves_first_match[of "''Missing''" ?p example_lib None None None "[]"
            3 20 None] a w t
          get_logs_resolves_first_match[of "''ChannelCreated''" ?p example_lib None None None
            "[]" 3 20 None] b c
    by auto
qed

text \<open>
  The example ABI declares the event \<open>'Twice'\<close> twice. The call does not fail: it sends
  the request built from the first of the two entries and returns the decoded log.
\<close>

theorem get_logs_ambiguous_counterexample:
  "length (filter (event_matches ''Twice'')
            (abi (example_proxy [example_topup_log] (Inr [])))) = 2 \<and>
   get_logs example_lib (example_proxy [example_topup_log] (Inr [])) ''Twice''
     None None None []
   = (Inr [\<lparr>log_fields = example_topup_log, args = example_topup_log\<rparr>],
      [Eth_getLogs [(''fromBlock'', IntV 0), (''toBlock'', StrV ''latest''),
         (''address'', StrV ''0xC0''), (''event'', StrV ''Twice''), (''inputs'', IntV 0)]])"
  by (simp add: example_defs)

section \<open>The two queries for topped-up logs\<close>

text \<open>
  Claim C9. \<open>get_channel_topup_logs\<close> and \<open>get_channel_topped_up_logs\<close> are the same
  function: both are \<open>get_logs\<close> for the event \<open>'ChannelToppedUp'\<close> with the caller's block
  range (from block 0 to \<open>'latest'\<close> where not supplied) and filters.
\<close>

theorem get_channel_topup_logs_eq:
  "get_channel_topup_logs = get_channel_topped_up_logs \<and>
   get_channel_topup_logs L p from_block to_block filters h =
     get_logs L p ''ChannelToppedUp'' from_block to_block filters h \<and>
   get_channel_topped_up_logs L p from_block to_block filters h =
     get_logs L p ''ChannelToppedUp'' from_block to_block filters h"
proof -
  have "get_channel_topup_logs L' p' fb tb fl h' = get_channel_topped_up_logs L' p' fb tb fl h'"
    for L' p' fb tb fl h'
    by (simp add: get_channel_topup_logs_def get_channel_topped_up_logs_def)
  then have "get_channel_topup_logs = get_channel_topped_up_logs"
    by (intro ext)
  moreover have "get_channel_topup_logs L p from_block to_block filters h =
     get_logs L p ''ChannelToppedUp'' from_block to_block filters h"
    by (simp add: get_channel_topup_logs_def get_logs_supplied)
  moreover have "get_channel_topped_up_logs L p from_block to_block filters h =
     get_logs L p ''ChannelToppedUp'' from_block to_block filters h"
    by (simp add: get_channel_topped_up_logs_def get_logs_supplied)
  ultimately show ?thesis by simp
qed

section \<open>A timeout of zero\<close>



section \<open>The first matching entry\<close>



section \<open>The settle timeout\<close>

text \<open>
  Claim C6. \<open>get_settle_timeout\<close> makes one contract read of the channel info. When the
  read raises \<open>BadFunctionCallOutput\<close> (the channel does not exist) the result is \<open>None\<close>;
  any other exception propagates unchanged; when the read succeeds with a tuple of
  at least four elements, the result is its element at index 3.
\<close>

theorem get_settle_timeout_cases:
  "snd (get_settle_timeout p sender receiver open_block_number h)
     = h @ [GetChannelInfo sender receiver open_block_number] \<and>
   (getChannelInfo (web3 p) h sender receiver open_block_number = Inl BadFunctionCallOutput \<longrightarrow>
      fst (get_settle_timeout p sender receiver open_block_number h) = Inr None) \<and>
   (\<forall>e. getChannelInfo (web3 p) h sender receiver open_block_number = Inl e \<and>
        e \<noteq> BadFunctionCallOutput \<longrightarrow>
      fst (get_settle_timeout p sender receiver open_block_number h) = Inl e) \<and>
   (\<forall>channel_info.
      getChannelInfo (web3 p) h sender receiver open_block_number = Inr channel_info \<and>
      3 < length channel_info \<longrightarrow>
      fst (get_settle_timeout p sender receiver open_block_number h)
        = Inr (Some (channel_info ! 3)))"
  by (simp add: get_settle_timeout_def Let_def split: sum.splits)

theorem get_settle_timeout_cases_witness:
  "fst (get_settle_timeout (example_proxy [] (Inl BadFunctionCallOutput))
          (StrV ''A'') (StrV ''B'') (IntV 10) []) = Inr None \<and>
   fst (get_settle_timeout (example_proxy [] (Inl (TransportError ''timeout'')))
          (StrV ''A'') (StrV ''B'') (IntV 10) []) = Inl (TransportError ''timeout'') \<and>
   fst (get_settle_timeout (example_proxy [] (Inr [StrV ''key'', IntV 100, IntV 0, IntV 42]))
          (StrV ''A'') (StrV ''B'') (IntV 10) []) = Inr (Some (IntV 42))"
proof -
  let ?a = "StrV ''A''" and ?b = "StrV ''B''" and ?n = "IntV 10"
  have 1: "getChannelInfo (web3 (example_proxy [] (Inl BadFunctionCallOutput))) [] ?a ?b ?n
             = Inl BadFunctionCallOutput"
    by (simp add: example_defs)
  have 2: "getChannelInfo (web3 (example_proxy [] (Inl (TransportError ''timeout'')))) [] ?a ?b ?n
             = Inl (TransportError ''timeout'') \<and> TransportError ''timeout'' \<noteq> BadFunctionCallOutput"
    by (simp add: example_defs)
  have 3: "getChannelInfo (web3 (example_proxy [] (Inr [StrV ''key'', IntV 100, IntV 0, IntV 42])))
             [] ?a ?b ?n = Inr [StrV ''key'', IntV 100, IntV 0, IntV 42] \<and>
           3 < length [StrV ''key'', IntV 100, IntV 0, IntV 42]"
    by (simp add: example_defs)
  show ?thesis
    using get_settle_timeout_cases[of "example_proxy [] (Inl BadFunctionCallOutput)" ?a ?b ?n "[]"] 1
          get_settle_timeout_cases[of "example_proxy [] (Inl (TransportError ''timeout''))"
            ?a ?b ?n "[]"] 2
          get_settle_timeout_cases[of "example_proxy [] (Inr [StrV ''key'', IntV 100, IntV 0, IntV 42])"
            ?a ?b ?n "[]"] 3
    by (simp del: One_nat_def)
qed

text \<open>What a signed transaction holds, whenever construction and signing succeed.\<close>

lemma signed_transaction_Inr:
  assumes "signed_transaction L p n data = Inr signed"
  shows "\<exists>v r s.
           ecsign L \<lparr> tx_nonce = n, tx_gasprice = gas_price p, tx_startgas = gas_limit p,
                      tx_to = address p, tx_value = 0, tx_data = data,
                      tx_v = 0, tx_r = 0, tx_s = 0 \<rparr> (privkey p) = Inr (v, r, s) \<and>
           signed = \<lparr> tx_nonce = n, tx_gasprice = gas_price p, tx_startgas = gas_limit p,
                      tx_to = address p, tx_value = 0, tx_data = data,
                      tx_v = v, tx_r = r, tx_s = s \<rparr>"
  using assms
  by (auto simp add: signed_transaction_def Transaction_def sign_def Let_def
        split: option.splits if_splits sum.splits prod.splits)

section \<open>The transaction that is signed\<close>

text \<open>
  Claim C4, as the code has it. Let the transaction count be fetched and the call be
  encoded, let the nonce \<open>count + k\<close>, the gas price and the gas limit be below \<open>2 ^ 256\<close>,
  and let the library accept, sign and serialise the transaction. Then
  \<open>create_transaction\<close> with nonce offset \<open>k\<close> returns the hex form of the serialised signed
  transaction, whose nonce is the fetched count plus \<open>k\<close>, whose gas price and gas limit
  are the proxy's, whose recipient is the contract address, whose value is 0 and whose
  signature is the one made with the proxy's private key. Every offset whose
  transaction is signed gives the nonce \<open>count\<close> plus that offset, so two offsets that
  differ give two nonces that differ.
\<close>

theorem create_transaction_fields:
  assumes "getTransactionCount (web3 p) h (caller_address p) = Inr count"
    and "prepare_transaction (web3 p) func_name fargs = Inr hex"
    and "decode_hex L hex = Inr data"
    and "count + k < TT256" and "gas_price p < TT256" and "gas_limit p < TT256"
    and "tx = \<lparr> tx_nonce = count + k, tx_gasprice = gas_price p, tx_startgas = gas_limit p,
                 tx_to = address p, tx_value = 0, tx_data = data,
                 tx_v = 0, tx_r = 0, tx_s = 0 \<rparr>"
    and "transaction_error L tx = None"
    and "ecsign L tx (privkey p) = Inr (v, r, s)"
    and "rlp_encode L (tx\<lparr> tx_v := v, tx_r := r, tx_s := s \<rparr>) = Inr encoded"
  shows "create_transaction L p func_name fargs (Some k) h
           = (Inr (toHex (web3 p) encoded), h @ [GetTransactionCount (caller_address p)]) \<and>
         signed_transaction L p (count + k) data
           = Inr \<lparr> tx_nonce = count + k, tx_gasprice = gas_price p, tx_startgas = gas_limit p,
                   tx_to = address p, tx_value = 0, tx_data = data,
                   tx_v = v, tx_r = r, tx_s = s \<rparr> \<and>
         (\<forall>k' signed'.
            signed_transaction L p (count + k') data = Inr signed' \<longrightarrow>
              tx_nonce signed' = count + k' \<and> (k' \<noteq> k \<longrightarrow> tx_nonce signed' \<noteq> count + k))"
proof -
  have t: "Transaction L (count + k) (gas_price p) (gas_limit p) (address p) 0 data = Inr tx"
    using assms(4-8) by (simp add: Transaction_def TT256_def)
  have s: "signed_transaction L p (count + k) data
             = Inr (tx\<lparr> tx_v := v, tx_r := r, tx_s := s \<rparr>)"
    using t assms(9) by (simp add: signed_transaction_def sign_def)
  have c: "create_transaction L p func_name fargs (Some k) h
           = (Inr (toHex (web3 p) encoded), h @ [GetTransactionCount (caller_address p)])"
    using assms(1-3) s assms(10) by (simp add: create_transaction_def)
  have f: "tx\<lparr> tx_v := v, tx_r := r, tx_s := s \<rparr>
             = \<lparr> tx_nonce = count + k, tx_gasprice = gas_price p, tx_startgas = gas_limit p,
                 tx_to = address p, tx_value = 0, tx_data = data,
                 tx_v = v, tx_r = r, tx_s = s \<rparr>"
    using assms(7) by simp
  have n: "tx_nonce signed' = count + k' \<and> (k' \<noteq> k \<longrightarrow> tx_nonce signed' \<noteq> count + k)"
    if "signed_transaction L p (count + k') data = Inr signed'" for k' signed'
    using signed_transaction_Inr[OF that] by auto
  show ?thesis
    using c s f n by simp
qed

theorem create_transaction_fields_witness:
  "create_transaction example_lib (example_proxy [] (Inr [])) ''createChannel'' [IntV 5]
     (Some 2) [] = (Inr ''0xabcd1b'', [GetTransactionCount ''0xk'']) \<and>
   signed_transaction example_lib (example_proxy [] (Inr [])) (7 + 2) ''abcd''
     = Inr \<lparr> tx_nonce = 9, tx_gasprice = 20, tx_startgas = 130000, tx_to = ''0xC0'',
             tx_value = 0, tx_data = ''abcd'', tx_v = 27, tx_r = 9, tx_s = 1 \<rparr>"
proof -
  let ?p = "example_proxy [] (Inr [])"
  let ?tx = "\<lparr> tx_nonce = 7 + 2, tx_gasprice = gas_price ?p, tx_startgas = gas_limit ?p,
               tx_to = address ?p, tx_value = 0, tx_data = ''abcd'',
               tx_v = 0, tx_r = 0, tx_s = 0 \<rparr>"
  have a: "getTransactionCount (web3 ?p) [] (caller_address ?p) = Inr 7"
    by (simp add: example_defs)
  have b: "prepare_transaction (web3 ?p) ''createChannel'' [IntV 5] = Inr ''0xabcd''"
    by (simp add: example_defs)
  have c: "decode_hex example_lib ''0xabcd'' = Inr ''abcd''"
    by (simp add: example_defs)
  have r1: "(7::int) + 2 < TT256" and r2: "gas_price ?p < TT256" and r3: "gas_limit ?p < TT256"
    by (simp_all add: example_defs TT256_def)
  have x: "?tx = ?tx" by (rule refl)
  have e: "transaction_error example_lib ?tx = None"
    by (simp add: example_defs)
  have g: "ecsign example_lib ?tx (privkey ?p) = Inr (27, 9, 1)"
    by (simp add: example_defs)
  have m: "rlp_encode example_lib (?tx\<lparr> tx_v := 27, tx_r := 9, tx_s := 1 \<rparr>) = Inr ''abcd1b''"
    by (simp add: example_defs)
  have q: "toHex (web3 ?p) ''abcd1b'' = ''0xabcd1b'' \<and> caller_address ?p = ''0xk'' \<and>
           gas_price ?p = 20 \<and> gas_limit ?p = 130000 \<and> address ?p = ''0xC0''"
    by (simp add: example_defs)
  show ?thesis
    using create_transaction_fields[OF a b c r1 r2 r3 x e g m] q
    by simp
qed

text \<open>
  A nonce offset of \<open>2 ^ 256\<close> is a non-negative integer, and the call raises
  \<open>InvalidTransaction\<close> after the transaction count was fetched: no signed transaction
  is produced.
\<close>

theorem create_transaction_nonce_counterexample:
  "create_transaction example_lib (example_proxy [] (Inr [])) ''createChannel'' [IntV 5]
     (Some (2 ^ 256)) [] = (Inl InvalidTransaction, [GetTransactionCount ''0xk''])"
  by (simp add: example_defs create_transaction_def signed_transaction_def Transaction_def
        TT256_def)

text \<open>Decoding keeps the raw logs, their order, and attaches the decoded arguments.\<close>

lemma attach_args_Inr:
  "attach_args L event_abi raws = Inr logs \<Longrightarrow>
     map log_fields logs = raws \<and>
     list_all2 (\<lambda>raw entry. get_event_data L event_abi raw = Inr (args entry)) raws logs"
proof (induction raws arbitrary: logs)
  case Nil
  then show ?case by simp
next
  case (Cons raw raws)
  then show ?case
    by (auto split: sum.splits)
qed

section \<open>Determinism of get_logs\<close>

text \<open>
  Claim C8. Two calls of \<open>get_logs\<close> with the same event name, block range and filters, made
  at two points of a run where the transport answers the request with the same raw
  logs, return the same result. When the result is a list of entries, it has one entry
  for each formatted raw log, in the transport's order, and the \<open>args\<close> of each entry
  are the raw log decoded against the first ABI entry that matches the event name.
\<close>

theorem get_logs_deterministic:
  assumes "\<forall>fp. request_blocking (web3 p) h1 fp = request_blocking (web3 p) h2 fp"
  shows "fst (get_logs L p event_name from_block to_block filters h1)
           = fst (get_logs L p event_name from_block to_block filters h2) \<and>
         (\<forall>logs. fst (get_logs L p event_name from_block to_block filters h1) = Inr logs \<longrightarrow>
            (\<exists>event_abi fp response.
               resolve_event (abi p) event_name = Inr event_abi \<and>
               filter_params L p event_abi (supplied (BlockNumber 0) from_block)
                 (supplied (BlockTag ''latest'') to_block) filters = Inr fp \<and>
               request_blocking (web3 p) h1 fp = Inr response \<and>
               map log_fields logs = log_array_formatter L response \<and>
               list_all2 (\<lambda>raw entry. get_event_data L event_abi raw = Inr (args entry))
                 (log_array_formatter L response) logs))"
proof -
  have eq: "fst (get_logs L p event_name from_block to_block filters h1)
           = fst (get_logs L p event_name from_block to_block filters h2)"
    using assms by (simp add: get_logs_def split: sum.splits)
  have dec: "\<exists>event_abi fp response.
               resolve_event (abi p) event_name = Inr event_abi \<and>
               filter_params L p event_abi (supplied (BlockNumber 0) from_block)
                 (supplied (BlockTag ''latest'') to_block) filters = Inr fp \<and>
               request_blocking (web3 p) h1 fp = Inr response \<and>
               map log_fields logs = log_array_formatter L response \<and>
               list_all2 (\<lambda>raw entry. get_event_data L event_abi raw = Inr (args entry))
                 (log_array_formatter L response) logs"
    if "fst (get_logs L p event_name from_block to_block filters h1) = Inr logs" for logs
    using that attach_args_Inr[of L _ _ logs]
    by (auto simp add: get_logs_def split: sum.splits)
  show ?thesis
    using eq dec by blast
qed

theorem get_logs_deterministic_witness:
  "fst (get_logs example_lib (example_proxy [example_topup_log, []] (Inr []))
          ''ChannelToppedUp'' None None None [])
   = fst (get_logs example_lib (example_proxy [example_topup_log, []] (Inr []))
          ''ChannelToppedUp'' None None None [Sleep 3]) \<and>
   fst (get_logs example_lib (example_proxy [example_topup_log, []] (Inr []))
          ''ChannelToppedUp'' None None None [])
   = Inr [\<lparr>log_fields = example_topup_log, args = example_topup_log\<rparr>,
          \<lparr>log_fields = [], args = []\<rparr>]"
proof -
  let ?p = "example_proxy [example_topup_log, []] (Inr [])"
  have a: "\<forall>fp. request_blocking (web3 ?p) [] fp = request_blocking (web3 ?p) [Sleep 3] fp"
    by (simp add: example_defs)
  have b: "fst (get_logs example_lib ?p ''ChannelToppedUp'' None None None [])
     = Inr [\<lparr>log_fields = example_topup_log, args = example_topup_log\<rparr>,
            \<lparr>log_fields = [], args = []\<rparr>]"
    by (simp add: example_defs)
  show ?thesis
    using get_logs_deterministic[OF a, of example_lib "''ChannelToppedUp''" None None None] b
    by simp
qed

text \<open>An entry that the loop returns has passed the condition.\<close>

lemma poll_loop_result_accepted:
  "poll_loop L p ev fb tb fl c w t is h = (Inr (Some event), h') \<Longrightarrow> accepts c event"
proof (induction "is" arbitrary: h)
  case Nil
  then show ?case by simp
next
  case (Cons i rest)
  obtain r h1 where g: "get_logs L p ev (Some fb) (Some tb) fl h = (r, h1)"
    by (cases "get_logs L p ev (Some fb) (Some tb) fl h")
  show ?case
  proof (cases r)
    case (Inl e)
    then show ?thesis using Cons.prems g by simp
  next
    case (Inr logs)
    show ?thesis
    proof (cases "matching_logs c logs")
      case (Inl e)
      then show ?thesis using Cons.prems g Inr by simp
    next
      case ms: (Inr ms)
      show ?thesis
      proof (cases ms)
        case Nil
        then show ?thesis
          using Cons.prems g Inr ms Cons.IH[of "h1 @ [Sleep w]"] Cons.IH[of h1]
          by (simp split: if_splits)
      next
        case (Cons m ms')
        then have "event = m"
          using Cons.prems g Inr ms by simp
        moreover have e: "filter (accepts c) logs = m # ms'"
          using matching_logs_filter[OF ms] Cons by simp
        have "m \<in> set (filter (accepts c) logs)"
          unfolding e by simp
        ultimately show ?thesis by simp
      qed
    qed
  qed
qed

lemma get_event_blocking_result_accepted:
  assumes "get_event_blocking L p ev fb tb fl c w t h = (Inr (Some event), h')"
  shows "accepts c event"
proof (cases "py_range 0 (supplied DEFAULT_TIMEOUT t + supplied DEFAULT_RETRY_INTERVAL w)
                (supplied DEFAULT_RETRY_INTERVAL w)")
  case (Inl e)
  then show ?thesis using assms by (simp add: get_event_blocking_def)
next
  case (Inr "is")
  then show ?thesis
    using assms poll_loop_result_accepted by (simp add: get_event_blocking_def)
qed

lemma get_event_blocking_no_match:
  assumes "w \<noteq> 0"
    and "\<forall>h'. \<exists>logs.
           fst (get_logs L p ev (Some (supplied (BlockNumber 0) fb))
                  (Some (supplied (BlockTag ''pending'') tb)) fl h') = Inr logs \<and>
           matching_logs c logs = Inr []"
  shows "fst (get_event_blocking L p ev fb tb fl c (Some w) t h) = Inr None"
proof -
  have "\<exists>is. py_range 0 (supplied DEFAULT_TIMEOUT t + w) w = Inr is"
    using assms(1) by (simp add: py_range_def)
  then obtain "is" where "py_range 0 (supplied DEFAULT_TIMEOUT t + w) w = Inr is"
    by blast
  then have "get_event_blocking L p ev fb tb fl c (Some w) t h =
             poll_loop L p ev (supplied (BlockNumber 0) fb) (supplied (BlockTag ''pending'') tb)
               fl c w (supplied DEFAULT_TIMEOUT t) is h"
    by (simp add: get_event_blocking_def)
  then show ?thesis
    using poll_loop_no_match[OF assms(2)] by simp
qed

lemma get_event_blocking_supplied:
  "get_event_blocking L p ev (Some (supplied (BlockNumber 0) fb))
     (Some (supplied (BlockTag ''pending'') tb)) fl c
     (Some (supplied DEFAULT_RETRY_INTERVAL w)) (Some (supplied DEFAULT_TIMEOUT t)) h
   = get_event_blocking L p ev fb tb fl c w t h"
  unfolding get_event_blocking_def supplied_Some by (rule refl)

lemma topped_up_condition_True:
  "topped_up_condition deposit topup event = Inr True \<longleftrightarrow>
     map_of (args event) ''_deposit'' = Some deposit \<and>
     map_of (args event) ''_added_deposit'' = Some topup"
  by (auto simp add: topped_up_condition_def split: option.splits)

lemma topped_up_condition_False:
  "map_of (args event) ''_deposit'' = Some d \<Longrightarrow>
   map_of (args event) ''_added_deposit'' = Some a \<Longrightarrow> a \<noteq> topup \<Longrightarrow>
     topped_up_condition deposit topup event = Inr False"
  by (simp add: topped_up_condition_def)

lemma matching_logs_none_pass:
  "\<forall>event \<in> set logs. c event = Inr False \<Longrightarrow> matching_logs (Some c) logs = Inr []"
  by (induction logs) simp_all

section \<open>Waiting for a top-up\<close>

text \<open>
  Claim C7. \<open>get_channel_topped_up_event_blocking\<close> is \<open>get_event_blocking\<close> for the event
  \<open>'ChannelToppedUp'\<close> with the filters \<open>_sender\<close>, \<open>_receiver\<close> and \<open>_open_block_number\<close> and
  with a condition that is true of an entry exactly when its decoded \<open>_deposit\<close> equals
  \<open>deposit\<close> and its decoded \<open>_added_deposit\<close> equals \<open>topup\<close>. An entry that it returns
  satisfies both equalities. When every poll yields only entries whose added deposit
  differs from \<open>topup\<close>, the call returns \<open>None\<close>.
\<close>

theorem get_channel_topped_up_event_blocking_condition:
  "get_channel_topped_up_event_blocking L p sender receiver opening_block deposit topup
       from_block to_block wait timeout h
     = get_event_blocking L p ''ChannelToppedUp'' from_block to_block
         (Some [(''_sender'', sender), (''_receiver'', receiver),
                (''_open_block_number'', opening_block)])
         (Some (topped_up_condition deposit topup)) wait timeout h \<and>
   (topped_up_condition deposit topup event = Inr True \<longleftrightarrow>
      map_of (args event) ''_deposit'' = Some deposit \<and>
      map_of (args event) ''_added_deposit'' = Some topup) \<and>
   (\<forall>found h'.
      get_channel_topped_up_event_blocking L p sender receiver opening_block deposit topup
        from_block to_block wait timeout h = (Inr (Some found), h') \<longrightarrow>
      map_of (args found) ''_deposit'' = Some deposit \<and>
      map_of (args found) ''_added_deposit'' = Some topup) \<and>
   (0 < w \<and>
    (\<forall>h'. \<exists>logs.
       fst (get_logs L p ''ChannelToppedUp'' (Some (supplied (BlockNumber 0) from_block))
              (Some (supplied (BlockTag ''pending'') to_block))
              (Some [(''_sender'', sender), (''_receiver'', receiver),
                     (''_open_block_number'', opening_block)]) h') = Inr logs \<and>
       (\<forall>entry \<in> set logs. \<exists>d a.
          map_of (args entry) ''_deposit'' = Some d \<and>
          map_of (args entry) ''_added_deposit'' = Some a \<and> a \<noteq> topup)) \<longrightarrow>
    fst (get_channel_topped_up_event_blocking L p sender receiver opening_block deposit topup
           from_block to_block (Some w) timeout h) = Inr None)"
proof -
  let ?fl = "Some [(''_sender'', sender), (''_receiver'', receiver),
                   (''_open_block_number'', opening_block)]"
  let ?c = "topped_up_condition deposit topup"
  have d: "get_channel_topped_up_event_blocking L p sender receiver opening_block deposit topup
             from_block to_block wt timeout h
           = get_event_blocking L p ''ChannelToppedUp'' from_block to_block ?fl (Some ?c)
               wt timeout h" for wt
    by (simp add: get_channel_topped_up_event_blocking_def get_event_blocking_supplied)
  have found: "map_of (args found) ''_deposit'' = Some deposit \<and>
               map_of (args found) ''_added_deposit'' = Some topup"
    if "get_channel_topped_up_event_blocking L p sender receiver opening_block deposit topup
          from_block to_block wait timeout h = (Inr (Some found), h')" for found h'
  proof -
    have "accepts (Some ?c) found"
      using that get_event_blocking_result_accepted by (simp add: d)
    then show ?thesis
      by (simp add: accepts_def topped_up_condition_True)
  qed
  have timeout: "fst (get_channel_topped_up_event_blocking L p sender receiver opening_block
                        deposit topup from_block to_block (Some w) timeout h) = Inr None"
    if w: "0 < w"
      and nm: "\<forall>h'. \<exists>logs.
         fst (get_logs L p ''ChannelToppedUp'' (Some (supplied (BlockNumber 0) from_block))
                (Some (supplied (BlockTag ''pending'') to_block)) ?fl h') = Inr logs \<and>
         (\<forall>entry \<in> set logs. \<exists>d a.
            map_of (args entry) ''_deposit'' = Some d \<and>
            map_of (args entry) ''_added_deposit'' = Some a \<and> a \<noteq> topup)"
  proof -
    have nm': "\<forall>h'. \<exists>logs.
         fst (get_logs L p ''ChannelToppedUp'' (Some (supplied (BlockNumber 0) from_block))
                (Some (supplied (BlockTag ''pending'') to_block)) ?fl h') = Inr logs \<and>
         matching_logs (Some ?c) logs = Inr []"
    proof
      fix h'
      obtain logs where l: "fst (get_logs L p ''ChannelToppedUp''
                (Some (supplied (BlockNumber 0) from_block))
                (Some (supplied (BlockTag ''pending'') to_block)) ?fl h') = Inr logs"
        and n: "\<forall>entry \<in> set logs. \<exists>d a.
            map_of (args entry) ''_deposit'' = Some d \<and>
            map_of (args entry) ''_added_deposit'' = Some a \<and> a \<noteq> topup"
        using nm by blast
      have "\<forall>entry \<in> set logs. ?c entry = Inr False"
        using n topped_up_condition_False by blast
      then have "matching_logs (Some ?c) logs = Inr []"
        by (rule matching_logs_none_pass)
      with l show "\<exists>logs.
         fst (get_logs L p ''ChannelToppedUp'' (Some (supplied (BlockNumber 0) from_block))
                (Some (supplied (BlockTag ''pending'') to_block)) ?fl h') = Inr logs \<and>
         matching_logs (Some ?c) logs = Inr []"
        by blast
    qed
    have wne: "w \<noteq> 0" using w by simp
    show ?thesis
      unfolding d by (rule get_event_blocking_no_match[OF wne nm'])
  qed
  show ?thesis
    using d[of wait] topped_up_condition_True[of deposit topup event] found timeout
    by blast
qed

theorem get_channel_topped_up_event_blocking_condition_witness:
  "fst (get_channel_topped_up_event_blocking example_lib
          (example_proxy [example_topup_log] (Inr []))
          (StrV ''A'') (StrV ''B'') (IntV 10) (IntV 100) (IntV 50) None None (Some 3) (Some 6) [])
     = Inr (Some \<lparr>log_fields = example_topup_log, args = example_topup_log\<rparr>) \<and>
   map_of (args \<lparr>log_fields = example_topup_log, args = example_topup_log\<rparr>) ''_added_deposit''
     = Some (IntV 50) \<and>
   fst (get_channel_topped_up_event_blocking example_lib
          (example_proxy [example_topup_log] (Inr []))
          (StrV ''A'') (StrV ''B'') (IntV 10) (IntV 100) (IntV 40) None None (Some 3) (Some 6) [])
     = Inr None"
proof -
  let ?p = "example_proxy [example_topup_log] (Inr [])"
  let ?e = "\<lparr>log_fields = example_topup_log, args = example_topup_log\<rparr>"
  let ?h = "[Eth_getLogs [(''fromBlock'', IntV 0), (''toBlock'', StrV ''pending''),
         (''address'', StrV ''0xC0''), (''event'', StrV ''ChannelToppedUp''),
         (''inputs'', IntV 5), (''_sender'', StrV ''A''), (''_receiver'', StrV ''B''),
         (''_open_block_number'', IntV 10)]]"
  have ev: "get_channel_topped_up_event_blocking example_lib ?p
          (StrV ''A'') (StrV ''B'') (IntV 10) (IntV 100) (IntV 50) None None (Some 3) (Some 6) []
        = (Inr (Some ?e), ?h)"
    by (simp add: example_defs get_channel_topped_up_event_blocking_def get_event_blocking_def
          py_range_def range_up.simps topped_up_condition_def example_topup_log_def)
  have w: "(0::int) < 3" by simp
  have nm: "\<forall>h'. \<exists>logs.
       fst (get_logs example_lib ?p ''ChannelToppedUp'' (Some (supplied (BlockNumber 0) None))
              (Some (supplied (BlockTag ''pending'') None))
              (Some [(''_sender'', StrV ''A''), (''_receiver'', StrV ''B''),
                     (''_open_block_number'', IntV 10)]) h') = Inr logs \<and>
       (\<forall>entry \<in> set logs. \<exists>d a.
          map_of (args entry) ''_deposit'' = Some d \<and>
          map_of (args entry) ''_added_deposit'' = Some a \<and> a \<noteq> IntV 40)"
    by (simp add: example_defs example_topup_log_def)
  have found: "map_of (args ?e) ''_added_deposit'' = Some (IntV 50)"
    using get_channel_topped_up_event_blocking_condition[of example_lib ?p "StrV ''A''"
            "StrV ''B''" "IntV 10" "IntV 100" "IntV 50" None None "Some 3" "Some 6" "[]" ?e 3,
            THEN conjunct2, THEN conjunct2, THEN conjunct1, rule_format, OF ev]
    by (rule conjunct2)
  have none: "fst (get_channel_topped_up_event_blocking example_lib ?p
          (StrV ''A'') (StrV ''B'') (IntV 10) (IntV 100) (IntV 40) None None (Some 3) (Some 6) [])
        = Inr None"
    using get_channel_topped_up_event_blocking_condition[of example_lib ?p "StrV ''A''"
            "StrV ''B''" "IntV 10" "IntV 100" "IntV 40" None None "Some 3" "Some 6" "[]" ?e 3,
            THEN conjunct2, THEN conjunct2, THEN conjunct2, rule_format, OF conjI[OF w nm]]
    .
  have "fst (get_channel_topped_up_event_blocking example_lib ?p
          (StrV ''A'') (StrV ''B'') (IntV 10) (IntV 100) (IntV 50) None None (Some 3) (Some 6) [])
        = Inr (Some ?e)"
    by (simp only: ev fst_conv)
  then show ?thesis
    using found none by (intro conjI)
qed

text \<open>What a wait leaves in the trace.\<close>

lemma get_logs_wait_action:
  "\<exists>acts. snd (get_logs L p ev (Some fb) (Some tb) fl h) = h @ acts \<and>
          list_all (wait_action L p ev fb tb fl w) acts"
proof -
  consider (same) "snd (get_logs L p ev (Some fb) (Some tb) fl h) = h"
    | (req) event_abi fp where "resolve_event (abi p) ev = Inr event_abi"
        "filter_params L p event_abi fb tb fl = Inr fp"
        "snd (get_logs L p ev (Some fb) (Some tb) fl h) = h @ [Eth_getLogs fp]"
    using get_logs_trace[of L p ev "Some fb" "Some tb" fl h] by auto
  then show ?thesis
  proof cases
    case same
    then have "snd (get_logs L p ev (Some fb) (Some tb) fl h) = h @ [] \<and>
               list_all (wait_action L p ev fb tb fl w) []"
      by simp
    then show ?thesis by (rule exI)
  next
    case req
    then have "snd (get_logs L p ev (Some fb) (Some tb) fl h) = h @ [Eth_getLogs fp] \<and>
               list_all (wait_action L p ev fb tb fl w) [Eth_getLogs fp]"
      by (simp add: wait_action_def)
    then show ?thesis by (rule exI)
  qed
qed

lemma poll_loop_trace:
  "\<exists>acts. snd (poll_loop L p ev fb tb fl c w t is h) = h @ acts \<and>
          list_all (wait_action L p ev fb tb fl w) acts"
proof (induction "is" arbitrary: h)
  case Nil
  have "snd (poll_loop L p ev fb tb fl c w t [] h) = h @ [] \<and>
        list_all (wait_action L p ev fb tb fl w) []"
    by simp
  then show ?case by (rule exI)
next
  case (Cons i rest)
  let ?P = "wait_action L p ev fb tb fl w"
  obtain r h1 where g: "get_logs L p ev (Some fb) (Some tb) fl h = (r, h1)"
    by (cases "get_logs L p ev (Some fb) (Some tb) fl h")
  obtain a1 where h1: "h1 = h @ a1" and ok1: "list_all ?P a1"
    using get_logs_wait_action[of L p ev fb tb fl h w] g by auto
  have here: "\<exists>acts. h1 = h @ acts \<and> list_all ?P acts"
    using h1 ok1 by blast
  have sl: "?P (Sleep w)"
    by (simp add: wait_action_def)
  have step: "\<exists>acts. snd (poll_loop L p ev fb tb fl c w t rest (h1 @ s)) = h @ acts \<and>
                list_all ?P acts"
    if "list_all ?P s" for s
  proof -
    obtain a2 where e: "snd (poll_loop L p ev fb tb fl c w t rest (h1 @ s)) = (h1 @ s) @ a2"
      and ok2: "list_all ?P a2"
      using Cons.IH[of "h1 @ s"] by blast
    have "snd (poll_loop L p ev fb tb fl c w t rest (h1 @ s)) = h @ (a1 @ s @ a2) \<and>
          list_all ?P (a1 @ s @ a2)"
      using e ok2 h1 ok1 that by simp
    then show ?thesis by (rule exI)
  qed
  show ?case
  proof (cases r)
    case (Inl e)
    then show ?thesis using g here by simp
  next
    case (Inr logs)
    show ?thesis
    proof (cases "matching_logs c logs")
      case (Inl e)
      then show ?thesis using g Inr here by simp
    next
      case ms: (Inr ms)
      show ?thesis
      proof (cases ms)
        case (Cons m ms')
        then show ?thesis using g Inr ms here by simp
      next
        case Nil
        show ?thesis
        proof (cases "i < t")
          case True
          then have "poll_loop L p ev fb tb fl c w t (i # rest) h
                     = poll_loop L p ev fb tb fl c w t rest (h1 @ [Sleep w])"
            using g Inr ms Nil by simp
          then show ?thesis
            using step[of "[Sleep w]"] sl by simp
        next
          case False
          then have "poll_loop L p ev fb tb fl c w t (i # rest) h
                     = poll_loop L p ev fb tb fl c w t rest (h1 @ [])"
            using g Inr ms Nil by simp
          then show ?thesis
            using step[of "[]"] by simp
        qed
      qed
    qed
  qed
qed

lemma get_event_blocking_trace:
  "\<exists>acts. snd (get_event_blocking L p ev fb tb fl c w t h) = h @ acts \<and>
          list_all (wait_action L p ev (supplied (BlockNumber 0) fb)
                      (supplied (BlockTag ''pending'') tb) fl
                      (supplied DEFAULT_RETRY_INTERVAL w)) acts"
proof (cases "py_range 0 (supplied DEFAULT_TIMEOUT t + supplied DEFAULT_RETRY_INTERVAL w)
                (supplied DEFAULT_RETRY_INTERVAL w)")
  case (Inl e)
  then have "snd (get_event_blocking L p ev fb tb fl c w t h) = h @ [] \<and>
          list_all (wait_action L p ev (supplied (BlockNumber 0) fb)
                      (supplied (BlockTag ''pending'') tb) fl
                      (supplied DEFAULT_RETRY_INTERVAL w)) []"
    by (simp add: get_event_blocking_def)
  then show ?thesis by (rule exI)
next
  case (Inr "is")
  then show ?thesis
    using poll_loop_trace by (simp add: get_event_blocking_def)
qed

section \<open>The default of the to-block bound\<close>

text \<open>
  Claim C10. A to-block bound that is not supplied is \<open>'pending'\<close> in \<open>get_event_blocking\<close>
  and in the four channel waits, and \<open>'latest'\<close> in \<open>get_logs\<close> and in the five channel
  log queries. Each channel wait hands its to-block bound to \<open>get_event_blocking\<close>, each
  channel log query is \<open>get_logs\<close> for its event with the caller's block range, and
  every action that \<open>get_event_blocking\<close> adds to the trace is a sleep of the wait interval
  or the log request built from the same from-block and to-block bounds, address and
  filters: each poll cycle passes the same to-block bound to \<open>get_logs\<close>.
\<close>

theorem to_block_defaults:
  "get_event_blocking L p event_name from_block None filters condition wait timeout h
     = get_event_blocking L p event_name from_block (Some (BlockTag ''pending'')) filters
         condition wait timeout h \<and>
   get_channel_created_event_blocking L p sender receiver from_block None wait timeout h
     = get_channel_created_event_blocking L p sender receiver from_block
         (Some (BlockTag ''pending'')) wait timeout h \<and>
   get_channel_topped_up_event_blocking L p sender receiver opening_block deposit topup
       from_block None wait timeout h
     = get_channel_topped_up_event_blocking L p sender receiver opening_block deposit topup
         from_block (Some (BlockTag ''pending'')) wait timeout h \<and>
   get_channel_close_requested_event_blocking L p sender receiver opening_block
       from_block None wait timeout h
     = get_channel_close_requested_event_blocking L p sender receiver opening_block
         from_block (Some (BlockTag ''pending'')) wait timeout h \<and>
   get_channel_settle_event_blocking L p sender receiver opening_block
       from_block None wait timeout h
     = get_channel_settle_event_blocking L p sender receiver opening_block
         from_block (Some (BlockTag ''pending'')) wait timeout h \<and>
   get_logs L p event_name from_block None filters h
     = get_logs L p event_name from_block (Some (BlockTag ''latest'')) filters h \<and>
   get_channel_created_logs L p from_block None filters h
     = get_channel_created_logs L p from_block (Some (BlockTag ''latest'')) filters h \<and>
   get_channel_topped_up_logs L p from_block None filters h
     = get_channel_topped_up_logs L p from_block (Some (BlockTag ''latest'')) filters h \<and>
   get_channel_close_requested_logs L p from_block None filters h
     = get_channel_close_requested_logs L p from_block (Some (BlockTag ''latest'')) filters h \<and>
   get_channel_settled_logs L p from_block None filters h
     = get_channel_settled_logs L p from_block (Some (BlockTag ''latest'')) filters h \<and>
   get_channel_topup_logs L p from_block None filters h
     = get_channel_topup_logs L p from_block (Some (BlockTag ''latest'')) filters h \<and>
   get_channel_created_event_blocking L p sender receiver from_block to_block wait timeout h
     = get_event_blocking L p ''ChannelCreated'' from_block to_block
         (Some [(''_sender'', sender), (''_receiver'', receiver)]) None wait timeout h \<and>
   get_channel_topped_up_event_blocking L p sender receiver opening_block deposit topup
       from_block to_block wait timeout h
     = get_event_blocking L p ''ChannelToppedUp'' from_block to_block
         (Some [(''_sender'', sender), (''_receiver'', receiver),
                (''_open_block_number'', opening_block)])
         (Some (topped_up_condition deposit topup)) wait timeout h \<and>
   get_channel_close_requested_event_blocking L p sender receiver opening_block
       from_block to_block wait timeout h
     = get_event_blocking L p ''ChannelCloseRequested'' from_block to_block
         (Some [(''_sender'', sender), (''_receiver'', receiver),
                (''_open_block_number'', opening_block)]) None wait timeout h \<and>
   get_channel_settle_event_blocking L p sender receiver opening_block
       from_block to_block wait timeout h
     = get_event_blocking L p ''ChannelSettled'' from_block to_block
         (Some [(''_sender'', sender), (''_receiver'', receiver),
                (''_open_block_number'', opening_block)]) None wait timeout h \<and>
   get_channel_created_logs L p from_block to_block filters h
     = get_logs L p ''ChannelCreated'' from_block to_block filters h \<and>
   get_channel_topped_up_logs L p from_block to_block filters h
     = get_logs L p ''ChannelToppedUp'' from_block to_block filters h \<and>
   get_channel_close_requested_logs L p from_block to_block filters h
     = get_logs L p ''ChannelCloseRequested'' from_block to_block filters h \<and>
   get_channel_settled_logs L p from_block to_block filters h
     = get_logs L p ''ChannelSettled'' from_block to_block filters h \<and>
   get_channel_topup_logs L p from_block to_block filters h
     = get_logs L p ''ChannelToppedUp'' from_block to_block filters h \<and>
   (\<exists>acts.
      snd (get_event_blocking L p event_name from_block to_block filters condition
             wait timeout h) = h @ acts \<and>
      list_all (wait_action L p event_name (supplied (BlockNumber 0) from_block)
                  (supplied (BlockTag ''pending'') to_block) filters
                  (supplied DEFAULT_RETRY_INTERVAL wait)) acts)"
proof -
  have b0: "get_event_blocking L p ev from_block None fl c wait timeout h
     = get_event_blocking L p ev from_block (Some (BlockTag ''pending'')) fl c wait timeout h"
    for ev fl c
    unfolding get_event_blocking_def supplied_Some supplied_None by (rule refl)
  have b1: "get_channel_created_event_blocking L p sender receiver from_block None wait timeout h
     = get_channel_created_event_blocking L p sender receiver from_block
         (Some (BlockTag ''pending'')) wait timeout h"
    unfolding get_channel_created_event_blocking_def supplied_Some supplied_None by (rule refl)
  have b2: "get_channel_topped_up_event_blocking L p sender receiver opening_block deposit topup
       from_block None wait timeout h
     = get_channel_topped_up_event_blocking L p sender receiver opening_block deposit topup
         from_block (Some (BlockTag ''pending'')) wait timeout h"
    unfolding get_channel_topped_up_event_blocking_def supplied_Some supplied_None by (rule refl)
  have b3: "get_channel_close_requested_event_blocking L p sender receiver opening_block
       from_block None wait timeout h
     = get_channel_close_requested_event_blocking L p sender receiver opening_block
         from_block (Some (BlockTag ''pending'')) wait timeout h"
    unfolding get_channel_close_requested_event_blocking_def supplied_Some supplied_None
    by (rule refl)
  have b4: "get_channel_settle_event_blocking L p sender receiver opening_block
       from_block None wait timeout h
     = get_channel_settle_event_blocking L p sender receiver opening_block
         from_block (Some (BlockTag ''pending'')) wait timeout h"
    unfolding get_channel_settle_event_blocking_def supplied_Some supplied_None by (rule refl)
  have l0: "get_logs L p ev from_block None filters h
     = get_logs L p ev from_block (Some (BlockTag ''latest'')) filters h" for ev
    unfolding get_logs_def supplied_Some supplied_None by (rule refl)
  have l1: "get_channel_created_logs L p from_block None filters h
     = get_channel_created_logs L p from_block (Some (BlockTag ''latest'')) filters h"
    unfolding get_channel_created_logs_def supplied_Some supplied_None by (rule refl)
  have l2: "get_channel_topped_up_logs L p from_block None filters h
     = get_channel_topped_up_logs L p from_block (Some (BlockTag ''latest'')) filters h"
    unfolding get_channel_topped_up_logs_def supplied_Some supplied_None by (rule refl)
  have l3: "get_channel_close_requested_logs L p from_block None filters h
     = get_channel_close_requested_logs L p from_block (Some (BlockTag ''latest'')) filters h"
    unfolding get_channel_close_requested_logs_def supplied_Some supplied_None by (rule refl)
  have l4: "get_channel_settled_logs L p from_block None filters h
     = get_channel_settled_logs L p from_block (Some (BlockTag ''latest'')) filters h"
    unfolding get_channel_settled_logs_def supplied_Some supplied_None by (rule refl)
  have l5: "get_channel_topup_logs L p from_block None filters h
     = get_channel_topup_logs L p from_block (Some (BlockTag ''latest'')) filters h"
    unfolding get_channel_topup_logs_def supplied_Some supplied_None by (rule refl)
  have d1: "get_channel_created_event_blocking L p sender receiver from_block to_block
              wait timeout h
     = get_event_blocking L p ''ChannelCreated'' from_block to_block
         (Some [(''_sender'', sender), (''_receiver'', receiver)]) None wait timeout h"
    by (simp add: get_channel_created_event_blocking_def get_event_blocking_supplied)
  have d2: "get_channel_topped_up_event_blocking L p sender receiver opening_block deposit topup
       from_block to_block wait timeout h
     = get_event_blocking L p ''ChannelToppedUp'' from_block to_block
         (Some [(''_sender'', sender), (''_receiver'', receiver),
                (''_open_block_number'', opening_block)])
         (Some (topped_up_condition deposit topup)) wait timeout h"
    by (simp add: get_channel_topped_up_event_blocking_def get_event_blocking_supplied)
  have d3: "get_channel_close_requested_event_blocking L p sender receiver opening_block
       from_block to_block wait timeout h
     = get_event_blocking L p ''ChannelCloseRequested'' from_block to_block
         (Some [(''_sender'', sender), (''_receiver'', receiver),
                (''_open_block_number'', opening_block)]) None wait timeout h"
    by (simp add: get_channel_close_requested_event_blocking_def get_event_blocking_supplied)
  have d4: "get_channel_settle_event_blocking L p sender receiver opening_block
       from_block to_block wait timeout h
     = get_event_blocking L p ''ChannelSettled'' from_block to_block
         (Some [(''_sender'', sender), (''_receiver'', receiver),
                (''_open_block_number'', opening_block)]) None wait timeout h"
    by (simp add: get_channel_settle_event_blocking_def get_event_blocking_supplied)
  have q1: "get_channel_created_logs L p from_block to_block filters h
     = get_logs L p ''ChannelCreated'' from_block to_block filters h"
    by (simp add: get_channel_created_logs_def get_logs_supplied)
  have q2: "get_channel_topped_up_logs L p from_block to_block filters h
     = get_logs L p ''ChannelToppedUp'' from_block to_block filters h"
    by (simp add: get_channel_topped_up_logs_def get_logs_supplied)
  have q3: "get_channel_close_requested_logs L p from_block to_block filters h
     = get_logs L p ''ChannelCloseRequested'' from_block to_block filters h"
    by (simp add: get_channel_close_requested_logs_def get_logs_supplied)
  have q4: "get_channel_settled_logs L p from_block to_block filters h
     = get_logs L p ''ChannelSettled'' from_block to_block filters h"
    by (simp add: get_channel_settled_logs_def get_logs_supplied)
  have q5: "get_channel_topup_logs L p from_block to_block filters h
     = get_logs L p ''ChannelToppedUp'' from_block to_block filters h"
    by (simp add: get_channel_topup_logs_def get_logs_supplied)
  note tr = get_event_blocking_trace[of L p event_name from_block to_block filters condition
              wait timeout h]
  show ?thesis
    by (intro conjI b0 b1 b2 b3 b4 l0 l1 l2 l3 l4 l5 d1 d2 d3 d4 q1 q2 q3 q4 q5 tr)
qed

theorem to_block_defaults_witness:
  "snd (get_event_blocking example_lib (example_proxy [] (Inr [])) ''ChannelCreated''
          None None None None (Some 3) (Some 3) [])
   = [Eth_getLogs [(''fromBlock'', IntV 0), (''toBlock'', StrV ''pending''),
         (''address'', StrV ''0xC0''), (''event'', StrV ''ChannelCreated''),
         (''inputs'', IntV 2)],
      Sleep 3,
      Eth_getLogs [(''fromBlock'', IntV 0), (''toBlock'', StrV ''pending''),
         (''address'', StrV ''0xC0''), (''event'', StrV ''ChannelCreated''),
         (''inputs'', IntV 2)]] \<and>
   snd (get_logs example_lib (example_proxy [] (Inr [])) ''ChannelCreated'' None None None [])
   = [Eth_getLogs [(''fromBlock'', IntV 0), (''toBlock'', StrV ''latest''),
         (''address'', StrV ''0xC0''), (''event'', StrV ''ChannelCreated''),
         (''inputs'', IntV 2)]]"
proof -
  let ?p = "example_proxy [] (Inr [])"
  have a: "snd (get_event_blocking example_lib ?p ''ChannelCreated''
          None (Some (BlockTag ''pending'')) None None (Some 3) (Some 3) [])
   = [Eth_getLogs [(''fromBlock'', IntV 0), (''toBlock'', StrV ''pending''),
         (''address'', StrV ''0xC0''), (''event'', StrV ''ChannelCreated''),
         (''inputs'', IntV 2)],
      Sleep 3,
      Eth_getLogs [(''fromBlock'', IntV 0), (''toBlock'', StrV ''pending''),
         (''address'', StrV ''0xC0''), (''event'', StrV ''ChannelCreated''),
         (''inputs'', IntV 2)]]"
    by (simp add: example_defs get_event_blocking_def py_range_def range_up.simps)
  have b: "snd (get_logs example_lib ?p ''ChannelCreated'' None (Some (BlockTag ''latest''))
             None [])
   = [Eth_getLogs [(''fromBlock'', IntV 0), (''toBlock'', StrV ''latest''),
         (''address'', StrV ''0xC0''), (''event'', StrV ''ChannelCreated''),
         (''inputs'', IntV 2)]]"
    by (simp add: example_defs)
  note t = to_block_defaults[of example_lib ?p "''ChannelCreated''" None None None "Some 3"
             "Some 3" "[]"]
  show ?thesis
    using t[THEN conjunct1] t[THEN conjunct2, THEN conjunct2, THEN conjunct2, THEN conjunct2,
            THEN conjunct2, THEN conjunct1] a b
    by (simp only:)
qed

end
